theory Spec2Isabelle
  imports Main "HOL-Library.Word"
begin

section \<open>Strings and HTTP headers\<close>

text \<open>
  Go strings are byte sequences: \<open>string\<close> here. \<open>strings.Contains s substr\<close> holds when
  \<open>substr\<close> occurs in \<open>s\<close> at some offset; the empty string occurs everywhere.
\<close>

definition HasPrefix :: "string \<Rightarrow> string \<Rightarrow> bool" where
  "HasPrefix s p = (take (length p) s = p)"

fun Contains :: "string \<Rightarrow> string \<Rightarrow> bool" where
  "Contains [] substr = (substr = [])"
| "Contains (c # s) substr = (HasPrefix (c # s) substr \<or> Contains s substr)"

text \<open>
  \<open>http.Header\<close> is \<open>map[string][]string\<close> keyed by canonical header names.
  \<open>CanonicalMIMEHeaderKey\<close> leaves a key with a byte outside the token alphabet (or with a
  space) unchanged; otherwise the first letter and every letter after a hyphen become upper
  case and all others lower case.
\<close>

type_synonym Header = "string \<rightharpoonup> string list"

definition isLower :: "char \<Rightarrow> bool" where
  "isLower c = (97 \<le> (of_char c :: nat) \<and> (of_char c :: nat) \<le> 122)"

definition isUpper :: "char \<Rightarrow> bool" where
  "isUpper c = (65 \<le> (of_char c :: nat) \<and> (of_char c :: nat) \<le> 90)"

definition isDigit :: "char \<Rightarrow> bool" where
  "isDigit c = (48 \<le> (of_char c :: nat) \<and> (of_char c :: nat) \<le> 57)"

definition validHeaderFieldByte :: "char \<Rightarrow> bool" where
  "validHeaderFieldByte c =
     (isLower c \<or> isUpper c \<or> isDigit c \<or>
      (of_char c :: nat) \<in> set [33, 35, 36, 37, 38, 39, 42, 43, 45, 46, 94, 95, 96, 124, 126])"

definition canonicalByte :: "bool \<Rightarrow> char \<Rightarrow> char" where
  "canonicalByte upper c =
     (if upper \<and> isLower c then char_of ((of_char c :: nat) - 32)
      else if \<not> upper \<and> isUpper c then char_of ((of_char c :: nat) + 32)
      else c)"

fun canonicalLetters :: "bool \<Rightarrow> string \<Rightarrow> string" where
  "canonicalLetters upper [] = []"
| "canonicalLetters upper (c # cs) =
     canonicalByte upper c # canonicalLetters (canonicalByte upper c = CHR ''-'') cs"

definition CanonicalMIMEHeaderKey :: "string \<Rightarrow> string" where
  "CanonicalMIMEHeaderKey a =
     (if list_all validHeaderFieldByte a then canonicalLetters True a else a)"

definition Header_Get :: "Header \<Rightarrow> string \<Rightarrow> string" where
  "Header_Get h key =
     (case h (CanonicalMIMEHeaderKey key) of
        None \<Rightarrow> []
      | Some [] \<Rightarrow> []
      | Some (v # vs) \<Rightarrow> v)"

definition Header_Set :: "Header \<Rightarrow> string \<Rightarrow> string \<Rightarrow> Header" where
  "Header_Set h key val = h(CanonicalMIMEHeaderKey key \<mapsto> [val])"

definition Header_Del :: "Header \<Rightarrow> string \<Rightarrow> Header" where
  "Header_Del h key = h(CanonicalMIMEHeaderKey key := None)"

section \<open>Requests and the response writer\<close>

text \<open>
  The fields of \<open>*http.Request\<close> that the handler reads: the method, \<open>URL.Path\<close>, the
  header, the body bytes and the request context.
\<close>

record 'ctx Request =
  Method :: string
  Path :: string
  Header :: Header
  Body :: string
  Context :: 'ctx

text \<open>
  \<open>http.ResponseWriter\<close>: the header map stays mutable, but the first \<open>WriteHeader\<close> fixes
  the status code and sends a snapshot of the header; a later \<open>WriteHeader\<close> is ignored.
  \<open>Write\<close> sends status 200 first when nothing was sent yet. Every \<open>Write\<close> of this
  handler follows an explicit Content-Type or an earlier \<open>WriteHeader\<close>, so content
  sniffing never applies.
\<close>

record ResponseWriter =
  header :: Header
  wroteHeader :: bool
  status :: nat
  sentHeader :: Header
  body :: string

definition NewResponseWriter :: ResponseWriter where
  "NewResponseWriter =
     \<lparr>header = Map.empty, wroteHeader = False, status = 0, sentHeader = Map.empty, body = []\<rparr>"

definition WriteHeader :: "ResponseWriter \<Rightarrow> nat \<Rightarrow> ResponseWriter" where
  "WriteHeader w code =
     (if wroteHeader w then w
      else w\<lparr>wroteHeader := True, status := code, sentHeader := header w\<rparr>)"

definition Write :: "ResponseWriter \<Rightarrow> string \<Rightarrow> ResponseWriter" where
  "Write w bs =
     (let w' = (if wroteHeader w then w else WriteHeader w 200)
      in w'\<lparr>body := body w' @ bs\<rparr>)"

definition StatusOK :: nat where "StatusOK = 200"
definition StatusAccepted :: nat where "StatusAccepted = 202"
definition StatusBadRequest :: nat where "StatusBadRequest = 400"
definition StatusNotFound :: nat where "StatusNotFound = 404"
definition StatusMethodNotAllowed :: nat where "StatusMethodNotAllowed = 405"
definition StatusNotAcceptable :: nat where "StatusNotAcceptable = 406"
definition StatusUnsupportedMediaType :: nat where "StatusUnsupportedMediaType = 415"
definition StatusInternalServerError :: nat where "StatusInternalServerError = 500"

definition MethodGet :: string where "MethodGet = ''GET''"
definition MethodPost :: string where "MethodPost = ''POST''"

text \<open>
  \<open>http.Error\<close> drops Content-Length, sets a plain-text Content-Type, writes the status
  and then the message followed by a newline. \<open>http.NotFound\<close> is \<open>http.Error\<close> with
  the fixed 404 text.
\<close>

definition http_Error :: "ResponseWriter \<Rightarrow> string \<Rightarrow> nat \<Rightarrow> ResponseWriter" where
  "http_Error w msg code =
     (let h1 = Header_Del (header w) ''Content-Length'';
          h2 = Header_Set h1 ''Content-Type'' ''text/plain; charset=utf-8'';
          h3 = Header_Set h2 ''X-Content-Type-Options'' ''nosniff'';
          w1 = WriteHeader (w\<lparr>header := h3\<rparr>) code
      in Write w1 (msg @ [CHR 0x0A]))"

definition http_NotFound :: "ResponseWriter \<Rightarrow> ResponseWriter" where
  "http_NotFound w = http_Error w ''404 page not found'' StatusNotFound"

section \<open>Loggers\<close>

text \<open>
  \<open>log.New(out, prefix, flags)\<close> builds a logger writing to \<open>out\<close>. A logger discards its
  output exactly when its writer is \<open>io.Discard\<close>. Each \<open>Printf\<close> emits one entry to the
  writer; the entry keeps the prefix and flags, from which Go formats the line header.
\<close>

datatype Writer = Stderr | Stdout | Discard | File nat

record Logger =
  out :: Writer
  prefix :: string
  flags :: nat

definition LstdFlags :: nat where "LstdFlags = 3"

definition log_New :: "Writer \<Rightarrow> string \<Rightarrow> nat \<Rightarrow> Logger" where
  "log_New wr p f = \<lparr>out = wr, prefix = p, flags = f\<rparr>"

type_synonym LogEntry = "Writer \<times> string \<times> nat \<times> string"

definition Logger_Printf :: "Logger \<Rightarrow> string \<Rightarrow> LogEntry list" where
  "Logger_Printf l msg = (if out l = Discard then [] else [(out l, prefix l, flags l, msg)])"

section \<open>JSON-RPC messages and the collaborators of the handler\<close>

text \<open>
  Modelled from the spec: the wire envelope of a Response is \<open>{id, result}\<close> or
  \<open>{id, error:{code,message}}\<close>; the type \<open>mcp.JSONRPCMessage\<close> is declared outside the
  sources at hand. An absent (\<open>nil\<close>) id is \<open>None\<close>.
\<close>

datatype ('i, 'v) JSONRPCMessage =
    JSONRPCResponse "'i option" 'v
  | JSONRPCError "'i option" int string

text \<open>
  Modelled from the spec: \<open>createErrorResponse\<close> is defined outside the sources at hand; it
  builds the error envelope from the id, the code and the message.
\<close>

definition createErrorResponse :: "'i option \<Rightarrow> int \<Rightarrow> string \<Rightarrow> ('i, 'v) JSONRPCMessage" where
  "createErrorResponse ident code message = JSONRPCError ident code message"

text \<open>
  Modelled from the spec: \<open>mcp.PARSE_ERROR\<close> is the standard JSON-RPC parse-error code; the
  constant is declared outside the sources at hand.
\<close>

definition PARSE_ERROR :: int where "PARSE_ERROR = - 32700"

text \<open>
  The handler calls three things that live outside this file: the JSON decoder of the
  standard library (an error, or the raw message it read from the body), the wrapped
  server's \<open>HandleMessage\<close> (\<open>None\<close> is a \<open>nil\<close> response), and the JSON encoder (an
  error, or the bytes it writes). They are parameters of the model. Errors carry their text.
\<close>

record ('srv, 'ctx, 'i, 'v) Collaborators =
  json_Decode :: "string \<Rightarrow> string + string"
  HandleMessage :: "'srv \<Rightarrow> 'ctx \<Rightarrow> string \<Rightarrow> ('i, 'v) JSONRPCMessage option"
  json_Encode :: "('i, 'v) JSONRPCMessage \<Rightarrow> string + string"

section \<open>The stateless HTTP server\<close>

text \<open>
  The struct \<open>StatelessHTTPServer\<close>. The \<open>http.Server\<close> of \<open>Start\<close> is kept by its
  address; the mutex guards only that field and has no state of its own here.
\<close>

record http_Server =
  Addr :: string

record ('srv, 'ctx) StatelessHTTPServer =
  server :: 'srv
  basePath :: string
  errLogger :: Logger
  contextFunc :: "('ctx \<Rightarrow> 'ctx) option"
  srv :: "http_Server option"

type_synonym ('srv, 'ctx) StatelessHTTPOption =
  "('srv, 'ctx) StatelessHTTPServer \<Rightarrow> ('srv, 'ctx) StatelessHTTPServer"

definition WithStatelessHTTPContextFunc ::
  "('ctx \<Rightarrow> 'ctx) \<Rightarrow> ('srv, 'ctx) StatelessHTTPOption" where
  "WithStatelessHTTPContextFunc fn = (\<lambda>s. s\<lparr>contextFunc := Some fn\<rparr>)"

definition WithHTTPBasePath :: "string \<Rightarrow> ('srv, 'ctx) StatelessHTTPOption" where
  "WithHTTPBasePath bp = (\<lambda>s. s\<lparr>basePath := bp\<rparr>)"

text \<open>The loop \<open>for _, opt := range opts { opt(svr) }\<close> over the freshly built struct.\<close>

fun applyOptions ::
  "('srv, 'ctx) StatelessHTTPOption list \<Rightarrow> ('srv, 'ctx) StatelessHTTPServer
   \<Rightarrow> ('srv, 'ctx) StatelessHTTPServer" where
  "applyOptions [] svr = svr"
| "applyOptions (opt # opts) svr = applyOptions opts (opt svr)"

definition NewStatelessHTTPServer ::
  "'srv \<Rightarrow> ('srv, 'ctx) StatelessHTTPOption list \<Rightarrow> ('srv, 'ctx) StatelessHTTPServer" where
  "NewStatelessHTTPServer mcpServer opts =
     applyOptions opts
       \<lparr>server = mcpServer, basePath = ''/'',
        errLogger = log_New Stderr [] LstdFlags,
        contextFunc = None, srv = None\<rparr>"

definition SetErrorLogger ::
  "('srv, 'ctx) StatelessHTTPServer \<Rightarrow> Logger \<Rightarrow> ('srv, 'ctx) StatelessHTTPServer" where
  "SetErrorLogger s logger = s\<lparr>errLogger := logger\<rparr>"

definition SetContextFunc ::
  "('srv, 'ctx) StatelessHTTPServer \<Rightarrow> ('ctx \<Rightarrow> 'ctx) \<Rightarrow> ('srv, 'ctx) StatelessHTTPServer" where
  "SetContextFunc s fn = s\<lparr>contextFunc := Some fn\<rparr>"

text \<open>
  \<open>writeJSONRPCError\<close> sets the Content-Type, writes status 400 and encodes the error
  envelope; it drops the encoder's error, so a failed encoding leaves the body empty.
\<close>

definition writeJSONRPCError ::
  "('srv, 'ctx, 'i, 'v) Collaborators \<Rightarrow> ResponseWriter \<Rightarrow> 'i option \<Rightarrow> int \<Rightarrow> string
   \<Rightarrow> ResponseWriter" where
  "writeJSONRPCError env w ident code message =
     (let response = createErrorResponse ident code message;
          w1 = w\<lparr>header := Header_Set (header w) ''Content-Type'' ''application/json''\<rparr>;
          w2 = WriteHeader w1 StatusBadRequest
      in case json_Encode env response of
           Inl err \<Rightarrow> w2
         | Inr bs \<Rightarrow> Write w2 bs)"

text \<open>
  \<open>processMessage\<close>, branch by branch in the order of the source: the Accept check, the
  Content-Type check, GET, any other method than POST, the decoding of the body, the call
  of the wrapped server, and the reply. The result is the response writer and what the
  error logger emitted.
\<close>

definition processMessage ::
  "('srv, 'ctx, 'i, 'v) Collaborators \<Rightarrow> ('srv, 'ctx) StatelessHTTPServer \<Rightarrow> ResponseWriter
   \<Rightarrow> 'ctx Request \<Rightarrow> ResponseWriter \<times> LogEntry list" where
  "processMessage env s w r =
     (let acceptHeader = Header_Get (Header r) ''Accept'' in
      if \<not> Contains acceptHeader ''application/json''
         \<and> \<not> Contains acceptHeader ''text/event-stream''
      then (http_Error w
              ''Not Acceptable: Client must accept both application/json and text/event-stream''
              StatusNotAcceptable, [])
      else let contentType = Header_Get (Header r) ''Content-Type'' in
      if contentType \<noteq> ''application/json''
      then (http_Error w ''Unsupported Media Type: Content-Type must be application/json''
              StatusUnsupportedMediaType, [])
      else if Method r = MethodGet
      then (http_Error w ''Method Not Allowed'' StatusMethodNotAllowed, [])
      else if Method r \<noteq> MethodPost
      then (http_Error w ''Method Not Allowed'' StatusMethodNotAllowed, [])
      else case json_Decode env (Body r) of
             Inl err \<Rightarrow> (writeJSONRPCError env w None PARSE_ERROR ''Parse error'', [])
           | Inr rawMessage \<Rightarrow>
               (case HandleMessage env (server s) (Context r) rawMessage of
                  Some response \<Rightarrow>
                    (let w1 = w\<lparr>header :=
                                  Header_Set (header w) ''content-type'' ''application/json''\<rparr>;
                         w2 = WriteHeader w1 StatusOK
                     in case json_Encode env response of
                          Inl err \<Rightarrow>
                            (http_Error w2 ''Internal Server Error'' StatusInternalServerError,
                             Logger_Printf (errLogger s) (''Error writing response: '' @ err))
                        | Inr bs \<Rightarrow> (Write w2 bs, []))
                | None \<Rightarrow> (WriteHeader w StatusAccepted, [])))"

definition ServeHTTP ::
  "('srv, 'ctx, 'i, 'v) Collaborators \<Rightarrow> ('srv, 'ctx) StatelessHTTPServer \<Rightarrow> ResponseWriter
   \<Rightarrow> 'ctx Request \<Rightarrow> ResponseWriter \<times> LogEntry list" where
  "ServeHTTP env s w r =
     (if Path r = basePath s then processMessage env s w r else (http_NotFound w, []))"

section \<open>A concrete instance\<close>

text \<open>
  A small instance on which the handler can be run: a decoder that accepts a body starting
  with an opening brace, a wrapped server that answers a message mentioning an id and
  treats every other message as a notification, and an encoder with a fixed text per
  envelope. \<open>mkRequest\<close> builds a request to the path \<open>/\<close> from header pairs.
\<close>

definition demo_env :: "(unit, unit, nat, string) Collaborators" where
  "demo_env =
     \<lparr>json_Decode = (\<lambda>b. if b = [] then Inl ''EOF''
                         else if hd b = CHR ''{'' then Inr b
                         else Inl ''invalid character''),
      HandleMessage = (\<lambda>m c raw. if Contains raw ''id'' then Some (JSONRPCResponse (Some 1) ''{}'')
                                else None),
      json_Encode = (\<lambda>msg. case msg of
                        JSONRPCResponse i v \<Rightarrow> Inr (''result:'' @ v)
                      | JSONRPCError i c m \<Rightarrow> Inr (''error:'' @ m))\<rparr>"

definition demo_server :: "(unit, unit) StatelessHTTPServer" where
  "demo_server = NewStatelessHTTPServer () []"

definition mkRequest :: "string \<Rightarrow> (string \<times> string) list \<Rightarrow> string \<Rightarrow> unit Request" where
  "mkRequest m hs b =
     \<lparr>Method = m, Path = ''/'', Header = map_of (map (\<lambda>(k, v). (k, [v])) hs), Body = b,
      Context = ()\<rparr>"

section \<open>The reconnect loop of the resilient SSE client\<close>

text \<open>
  \<open>time.Duration\<close> is a signed 64-bit count of nanoseconds. The inner loop of
  \<open>reconnectLoop\<close> runs \<open>attempt\<close> from 1 to 5: a successful \<open>connect\<close> breaks out; a
  failed one arms a timer of \<open>time.Duration(attempt) * time.Second\<close> and waits for it or
  for the cancellation of the context, which returns. The outcome of each \<open>connect\<close> and
  of each wait is given by the two predicates on the attempt number. The result lists the
  timers armed, in order, and says how the loop ended.
\<close>

type_synonym Duration = "64 word"

definition Second :: Duration where "Second = 1000000000"

datatype reconnect_result = Reconnected | GaveUp | Cancelled

function reconnectAttempts ::
  "(nat \<Rightarrow> bool) \<Rightarrow> (nat \<Rightarrow> bool) \<Rightarrow> nat \<Rightarrow> Duration list \<times> reconnect_result" where
  "reconnectAttempts connectOk cancelled attempt =
     (if attempt \<le> 5 then
        (if connectOk attempt then ([], Reconnected)
         else if cancelled attempt then ([of_nat attempt * Second], Cancelled)
         else (of_nat attempt * Second # fst (reconnectAttempts connectOk cancelled (attempt + 1)),
               snd (reconnectAttempts connectOk cancelled (attempt + 1))))
      else ([], GaveUp))"
  by pat_completeness auto
termination
  by (relation "measure (\<lambda>(c, d, attempt). 6 - attempt)") auto

text \<open>
  The outer loop of \<open>reconnectLoop\<close>: every trigger taken from the channel starts a round
  of attempts that counts from 1 again; the loop returns when the context is cancelled,
  at its own \<open>select\<close> (here: after the given number of triggers) or during a backoff.
  The two predicates now speak about the calls of \<open>connect\<close> numbered from the start of
  the loop, \<open>calls\<close> being the number made so far. The result lists all timers armed.
\<close>

fun reconnectLoop :: "(nat \<Rightarrow> bool) \<Rightarrow> (nat \<Rightarrow> bool) \<Rightarrow> nat \<Rightarrow> nat \<Rightarrow> Duration list" where
  "reconnectLoop connectOk cancelled calls 0 = []"
| "reconnectLoop connectOk cancelled calls (Suc triggers) =
     (case reconnectAttempts (\<lambda>attempt. connectOk (calls + attempt))
             (\<lambda>attempt. cancelled (calls + attempt)) 1 of
        (delays, Cancelled) \<Rightarrow> delays
      | (delays, Reconnected) \<Rightarrow>
          delays @ reconnectLoop connectOk cancelled (calls + length delays + 1) triggers
      | (delays, GaveUp) \<Rightarrow>
          delays @ reconnectLoop connectOk cancelled (calls + length delays) triggers)"

text \<open>
  Three courses of events: \<open>connect\<close> never succeeds; \<open>connect\<close> succeeds from its fourth
  call on; the context is not cancelled.
\<close>

definition connectAlwaysFails :: "nat \<Rightarrow> bool" where
  "connectAlwaysFails call = False"

definition connectsAtFourth :: "nat \<Rightarrow> bool" where
  "connectsAtFourth call = (4 \<le> call)"

definition neverCancelled :: "nat \<Rightarrow> bool" where
  "neverCancelled call = False"

section \<open>Channels\<close>

text \<open>
  A buffered channel with its capacity. The statement
  \<open>select { case ch <- v: default: }\<close> sends when the buffer has room and does nothing
  otherwise; a receive takes the oldest element when there is one.
\<close>

record 'a chan =
  cap :: nat
  buf :: "'a list"

definition make_chan :: "nat \<Rightarrow> 'a chan" where
  "make_chan n = \<lparr>cap = n, buf = []\<rparr>"

definition trySend :: "'a chan \<Rightarrow> 'a \<Rightarrow> 'a chan" where
  "trySend ch v = (if length (buf ch) < cap ch then ch\<lparr>buf := buf ch @ [v]\<rparr> else ch)"

definition tryRecv :: "'a chan \<Rightarrow> ('a \<times> 'a chan) option" where
  "tryRecv ch = (case buf ch of [] \<Rightarrow> None | v # vs \<Rightarrow> Some (v, ch\<lparr>buf := vs\<rparr>))"

section \<open>The resilient SSE client as a transition system\<close>

text \<open>
  \<open>NewResilientSSEClient\<close> leaves \<open>client\<close> nil, makes \<open>reconnectCh\<close> with capacity 1
  and starts one goroutine running \<open>reconnectLoop\<close>. The state holds the fields that
  steer the control flow (the base URL and the header map only configure \<open>connect\<close>), the
  position of every loop goroutine and the position of a call of \<open>Close\<close>. Goroutines
  interleave: an event is one atomic action of one of them, and an event that is not
  enabled leaves the state as it is.
  \<^item> \<open>CallTool_ConnectionError\<close>: a \<open>CallTool\<close> found \<open>client\<close> non-nil, its call
    failed with a connection error, and it offers a trigger to the channel.
  \<^item> \<open>Loop_Receive\<close>: the loop, at its \<open>select\<close>, takes a trigger and starts attempt 1.
  \<^item> \<open>Loop_ConnectError\<close>, \<open>Loop_ConnectOk\<close>: \<open>connect\<close> returns (it holds the mutex
    throughout, so it is one action).
  \<^item> \<open>Loop_TimerFired\<close>: the backoff timer fires; the next attempt runs, or after
    attempt 5 the loop is back at its \<open>select\<close>.
  \<^item> \<open>Loop_CtxDone\<close>: the loop, at either \<open>select\<close>, sees the context cancelled and
    returns.
  \<^item> \<open>Close_Cancel\<close>, \<open>Close_Return\<close>: \<open>Close\<close> calls \<open>cancel\<close>, then closes the
    client under the mutex and returns.
\<close>

datatype SSEClient = SSEClient

datatype loop_pc = AtSelect | Connecting nat | Backoff nat | Exited

datatype close_pc = NotCalled | AfterCancel | Returned

record ResilientSSEClient =
  client :: "SSEClient option"
  ctxDone :: bool
  reconnectCh :: "unit chan"
  loops :: "loop_pc list"
  closing :: close_pc

definition NewResilientSSEClient :: ResilientSSEClient where
  "NewResilientSSEClient =
     \<lparr>client = None, ctxDone = False, reconnectCh = make_chan 1, loops = [AtSelect],
      closing = NotCalled\<rparr>"

datatype event =
    CallTool_ConnectionError
  | Loop_Receive nat
  | Loop_ConnectError nat
  | Loop_ConnectOk nat
  | Loop_TimerFired nat
  | Loop_CtxDone nat
  | Close_Cancel
  | Close_Return

definition loop_at :: "ResilientSSEClient \<Rightarrow> nat \<Rightarrow> loop_pc option" where
  "loop_at s i = (if i < length (loops s) then Some (loops s ! i) else None)"

fun step :: "event \<Rightarrow> ResilientSSEClient \<Rightarrow> ResilientSSEClient" where
  "step CallTool_ConnectionError s =
     (if client s = None then s
      else s\<lparr>reconnectCh := trySend (reconnectCh s) ()\<rparr>)"
| "step (Loop_Receive i) s =
     (case loop_at s i of
        Some AtSelect \<Rightarrow>
          (case tryRecv (reconnectCh s) of
             None \<Rightarrow> s
           | Some (v, ch) \<Rightarrow> s\<lparr>reconnectCh := ch, loops := (loops s)[i := Connecting 1]\<rparr>)
      | _ \<Rightarrow> s)"
| "step (Loop_ConnectError i) s =
     (case loop_at s i of
        Some (Connecting attempt) \<Rightarrow> s\<lparr>loops := (loops s)[i := Backoff attempt]\<rparr>
      | _ \<Rightarrow> s)"
| "step (Loop_ConnectOk i) s =
     (case loop_at s i of
        Some (Connecting attempt) \<Rightarrow>
          s\<lparr>client := Some SSEClient, loops := (loops s)[i := AtSelect]\<rparr>
      | _ \<Rightarrow> s)"
| "step (Loop_TimerFired i) s =
     (case loop_at s i of
        Some (Backoff attempt) \<Rightarrow>
          (if attempt + 1 \<le> 5 then s\<lparr>loops := (loops s)[i := Connecting (attempt + 1)]\<rparr>
           else s\<lparr>loops := (loops s)[i := AtSelect]\<rparr>)
      | _ \<Rightarrow> s)"
| "step (Loop_CtxDone i) s =
     (if ctxDone s then
        (case loop_at s i of
           Some AtSelect \<Rightarrow> s\<lparr>loops := (loops s)[i := Exited]\<rparr>
         | Some (Backoff attempt) \<Rightarrow> s\<lparr>loops := (loops s)[i := Exited]\<rparr>
         | _ \<Rightarrow> s)
      else s)"
| "step Close_Cancel s =
     (if closing s = NotCalled then s\<lparr>ctxDone := True, closing := AfterCancel\<rparr> else s)"
| "step Close_Return s =
     (if closing s = AfterCancel then s\<lparr>closing := Returned\<rparr> else s)"

fun run :: "event list \<Rightarrow> ResilientSSEClient \<Rightarrow> ResilientSSEClient" where
  "run [] s = s"
| "run (e # es) s = run es (step e s)"

fun recovering :: "loop_pc \<Rightarrow> bool" where
  "recovering (Connecting attempt) = True"
| "recovering (Backoff attempt) = True"
| "recovering pc = False"

definition pending :: "ResilientSSEClient \<Rightarrow> nat" where
  "pending s = length (buf (reconnectCh s))"

definition inRecovery :: "ResilientSSEClient \<Rightarrow> nat" where
  "inRecovery s = length (filter recovering (loops s))"

section \<open>The managed stdio client as a transition system\<close>

text \<open>
  \<open>NewManagedStdioClient\<close> starts the client first and fails when that fails; otherwise
  it adds 1 to the wait group and starts one goroutine running \<open>monitorProcess\<close>, which
  calls \<open>wg.Done\<close> when it returns. \<open>wg.Done\<close> on a zero counter panics. \<open>Close\<close>
  calls \<open>cancel\<close> and then \<open>wg.Wait\<close>, which returns only when the counter is zero.
\<close>

datatype StdioClient = StdioClient

datatype monitor_pc = MonitorAtSelect | Restarting | RetryDelay | MonitorExited

datatype stdio_close_pc = CloseNotCalled | CloseWaiting | CloseReturned

record ManagedStdioClient =
  stdioClient :: "StdioClient option"
  stdioCtxDone :: bool
  restartChan :: "unit chan"
  wg :: nat
  wgPanicked :: bool
  monitors :: "monitor_pc list"
  stdioClosing :: stdio_close_pc

definition NewManagedStdioClient :: "bool \<Rightarrow> ManagedStdioClient option" where
  "NewManagedStdioClient startOk =
     (if startOk then
        Some \<lparr>stdioClient = Some StdioClient, stdioCtxDone = False, restartChan = make_chan 1,
              wg = 1, wgPanicked = False, monitors = [MonitorAtSelect],
              stdioClosing = CloseNotCalled\<rparr>
      else None)"

datatype stdio_event =
    Stdio_CallTool_ProcessError
  | Monitor_Receive nat
  | Monitor_StartOk nat
  | Monitor_StartError nat
  | Monitor_Rearm nat
  | Monitor_CtxDone nat
  | StdioClose_Cancel
  | StdioClose_WaitDone

definition monitor_at :: "ManagedStdioClient \<Rightarrow> nat \<Rightarrow> monitor_pc option" where
  "monitor_at s i = (if i < length (monitors s) then Some (monitors s ! i) else None)"

definition wg_Done :: "ManagedStdioClient \<Rightarrow> ManagedStdioClient" where
  "wg_Done s = (if wg s = 0 then s\<lparr>wgPanicked := True\<rparr> else s\<lparr>wg := wg s - 1\<rparr>)"

fun stdio_step :: "stdio_event \<Rightarrow> ManagedStdioClient \<Rightarrow> ManagedStdioClient" where
  "stdio_step Stdio_CallTool_ProcessError s =
     (if stdioClient s = None then s
      else s\<lparr>restartChan := trySend (restartChan s) ()\<rparr>)"
| "stdio_step (Monitor_Receive i) s =
     (case monitor_at s i of
        Some MonitorAtSelect \<Rightarrow>
          (case tryRecv (restartChan s) of
             None \<Rightarrow> s
           | Some (v, ch) \<Rightarrow> s\<lparr>restartChan := ch, monitors := (monitors s)[i := Restarting]\<rparr>)
      | _ \<Rightarrow> s)"
| "stdio_step (Monitor_StartOk i) s =
     (case monitor_at s i of
        Some Restarting \<Rightarrow>
          s\<lparr>stdioClient := Some StdioClient, monitors := (monitors s)[i := MonitorAtSelect]\<rparr>
      | _ \<Rightarrow> s)"
| "stdio_step (Monitor_StartError i) s =
     (case monitor_at s i of
        Some Restarting \<Rightarrow> s\<lparr>monitors := (monitors s)[i := RetryDelay]\<rparr>
      | _ \<Rightarrow> s)"
| "stdio_step (Monitor_Rearm i) s =
     (case monitor_at s i of
        Some RetryDelay \<Rightarrow>
          s\<lparr>restartChan := trySend (restartChan s) (),
            monitors := (monitors s)[i := MonitorAtSelect]\<rparr>
      | _ \<Rightarrow> s)"
| "stdio_step (Monitor_CtxDone i) s =
     (if stdioCtxDone s then
        (case monitor_at s i of
           Some MonitorAtSelect \<Rightarrow> wg_Done (s\<lparr>monitors := (monitors s)[i := MonitorExited]\<rparr>)
         | _ \<Rightarrow> s)
      else s)"
| "stdio_step StdioClose_Cancel s =
     (if stdioClosing s = CloseNotCalled
      then s\<lparr>stdioCtxDone := True, stdioClosing := CloseWaiting\<rparr> else s)"
| "stdio_step StdioClose_WaitDone s =
     (if stdioClosing s = CloseWaiting \<and> wg s = 0 then s\<lparr>stdioClosing := CloseReturned\<rparr>
      else s)"

fun stdio_run :: "stdio_event list \<Rightarrow> ManagedStdioClient \<Rightarrow> ManagedStdioClient" where
  "stdio_run [] s = s"
| "stdio_run (e # es) s = stdio_run es (stdio_step e s)"

definition monitorsRunning :: "ManagedStdioClient \<Rightarrow> nat" where
  "monitorsRunning s = length (filter (\<lambda>pc. pc \<noteq> MonitorExited) (monitors s))"

definition stdio_inv :: "ManagedStdioClient \<Rightarrow> bool" where
  "stdio_inv s = (wg s = monitorsRunning s \<and> \<not> wgPanicked s)"

section \<open>The JSON scanner of the standard library\<close>

text \<open>
  \<open>encoding/json\<close> checks syntax with a scanner that is fed one byte at a time: it keeps
  the step it is in, the stack of enclosing objects and arrays (its top first here), whether
  the top-level value has ended and whether an error was seen, and answers each byte with
  a code. The steps below are those of the library, under their names.
\<close>

datatype scan_code =
    scanContinue | scanBeginLiteral | scanBeginObject | scanObjectKey | scanObjectValue
  | scanEndObject | scanBeginArray | scanArrayValue | scanEndArray | scanSkipSpace
  | scanEnd | scanError

datatype parse_state = parseObjectKey | parseObjectValue | parseArrayValue

datatype scan_step =
    stateBeginValueOrEmpty | stateBeginValue | stateBeginStringOrEmpty | stateBeginString
  | stateEndValue | stateEndTop
  | stateInString | stateInStringEsc | stateInStringEscU | stateInStringEscU1
  | stateInStringEscU12 | stateInStringEscU123
  | stateNeg | state1 | state0 | stateDot | stateDot0 | stateE | stateESign | stateE0
  | stateT | stateTr | stateTru | stateF | stateFa | stateFal | stateFals
  | stateN | stateNu | stateNul
  | stateError

record scanner =
  scanStep :: scan_step
  endTop :: bool
  parseState :: "parse_state list"
  scanErr :: bool

definition maxNestingDepth :: nat where "maxNestingDepth = 10000"

definition scanner_reset :: scanner where
  "scanner_reset = \<lparr>scanStep = stateBeginValue, endTop = False, parseState = [], scanErr = False\<rparr>"

definition isSpace :: "char \<Rightarrow> bool" where
  "isSpace c = (c = CHR '' '' \<or> c = CHR 0x09 \<or> c = CHR 0x0D \<or> c = CHR 0x0A)"

definition isHex :: "char \<Rightarrow> bool" where
  "isHex c = (isDigit c
     \<or> (97 \<le> (of_char c :: nat) \<and> (of_char c :: nat) \<le> 102)
     \<or> (65 \<le> (of_char c :: nat) \<and> (of_char c :: nat) \<le> 70))"

definition scanner_error :: "scanner \<Rightarrow> scan_code \<times> scanner" where
  "scanner_error s = (scanError, s\<lparr>scanStep := stateError, scanErr := True\<rparr>)"

definition goto :: "scanner \<Rightarrow> scan_step \<Rightarrow> scan_code \<Rightarrow> scan_code \<times> scanner" where
  "goto s st code = (code, s\<lparr>scanStep := st\<rparr>)"

definition pushParseState ::
  "scanner \<Rightarrow> parse_state \<Rightarrow> scan_code \<Rightarrow> scan_code \<times> scanner" where
  "pushParseState s newParseState successState =
     (let s' = s\<lparr>parseState := newParseState # parseState s\<rparr>
      in if length (parseState s') \<le> maxNestingDepth then (successState, s')
         else scanner_error s')"

definition popParseState :: "scanner \<Rightarrow> scanner" where
  "popParseState s =
     (let rest = tl (parseState s)
      in if rest = [] then s\<lparr>parseState := rest, scanStep := stateEndTop, endTop := True\<rparr>
         else s\<lparr>parseState := rest, scanStep := stateEndValue\<rparr>)"

definition stateEndTop_step :: "scanner \<Rightarrow> char \<Rightarrow> scan_code \<times> scanner" where
  "stateEndTop_step s c =
     (if \<not> isSpace c then (scanEnd, snd (scanner_error s)) else (scanEnd, s))"

definition stateEndValue_step :: "scanner \<Rightarrow> char \<Rightarrow> scan_code \<times> scanner" where
  "stateEndValue_step s c =
     (case parseState s of
        [] \<Rightarrow> stateEndTop_step (s\<lparr>scanStep := stateEndTop, endTop := True\<rparr>) c
      | ps # rest \<Rightarrow>
          if isSpace c then goto s stateEndValue scanSkipSpace
          else (case ps of
                  parseObjectKey \<Rightarrow>
                    if c = CHR '':''
                    then goto (s\<lparr>parseState := parseObjectValue # rest\<rparr>) stateBeginValue
                           scanObjectKey
                    else scanner_error s
                | parseObjectValue \<Rightarrow>
                    if c = CHR '',''
                    then goto (s\<lparr>parseState := parseObjectKey # rest\<rparr>) stateBeginString
                           scanObjectValue
                    else if c = CHR ''}'' then (scanEndObject, popParseState s)
                    else scanner_error s
                | parseArrayValue \<Rightarrow>
                    if c = CHR '','' then goto s stateBeginValue scanArrayValue
                    else if c = CHR '']'' then (scanEndArray, popParseState s)
                    else scanner_error s))"

definition stateBeginValue_step :: "scanner \<Rightarrow> char \<Rightarrow> scan_code \<times> scanner" where
  "stateBeginValue_step s c =
     (if isSpace c then (scanSkipSpace, s)
      else if c = CHR ''{''
      then pushParseState (s\<lparr>scanStep := stateBeginStringOrEmpty\<rparr>) parseObjectKey
             scanBeginObject
      else if c = CHR ''[''
      then pushParseState (s\<lparr>scanStep := stateBeginValueOrEmpty\<rparr>) parseArrayValue
             scanBeginArray
      else if c = CHR 0x22 then goto s stateInString scanBeginLiteral
      else if c = CHR ''-'' then goto s stateNeg scanBeginLiteral
      else if c = CHR ''0'' then goto s state0 scanBeginLiteral
      else if c = CHR ''t'' then goto s stateT scanBeginLiteral
      else if c = CHR ''f'' then goto s stateF scanBeginLiteral
      else if c = CHR ''n'' then goto s stateN scanBeginLiteral
      else if isDigit c then goto s state1 scanBeginLiteral
      else scanner_error s)"

definition stateBeginString_step :: "scanner \<Rightarrow> char \<Rightarrow> scan_code \<times> scanner" where
  "stateBeginString_step s c =
     (if isSpace c then (scanSkipSpace, s)
      else if c = CHR 0x22 then goto s stateInString scanBeginLiteral
      else scanner_error s)"

definition state0_step :: "scanner \<Rightarrow> char \<Rightarrow> scan_code \<times> scanner" where
  "state0_step s c =
     (if c = CHR ''.'' then goto s stateDot scanContinue
      else if c = CHR ''e'' \<or> c = CHR ''E'' then goto s stateE scanContinue
      else stateEndValue_step s c)"

definition stateESign_step :: "scanner \<Rightarrow> char \<Rightarrow> scan_code \<times> scanner" where
  "stateESign_step s c =
     (if isDigit c then goto s stateE0 scanContinue else scanner_error s)"

definition expect :: "scanner \<Rightarrow> char \<Rightarrow> char \<Rightarrow> scan_step \<Rightarrow> scan_code \<times> scanner" where
  "expect s c wanted st = (if c = wanted then goto s st scanContinue else scanner_error s)"

definition expectHex :: "scanner \<Rightarrow> char \<Rightarrow> scan_step \<Rightarrow> scan_code \<times> scanner" where
  "expectHex s c st = (if isHex c then goto s st scanContinue else scanner_error s)"

text \<open>One byte: the function stored in the field \<open>step\<close> of the library's scanner.\<close>

definition scan_byte :: "scanner \<Rightarrow> char \<Rightarrow> scan_code \<times> scanner" where
  "scan_byte s c =
     (case scanStep s of
        stateBeginValueOrEmpty \<Rightarrow>
          if isSpace c then (scanSkipSpace, s)
          else if c = CHR '']'' then stateEndValue_step s c
          else stateBeginValue_step s c
      | stateBeginValue \<Rightarrow> stateBeginValue_step s c
      | stateBeginStringOrEmpty \<Rightarrow>
          if isSpace c then (scanSkipSpace, s)
          else if c = CHR ''}''
          then stateEndValue_step (s\<lparr>parseState := parseObjectValue # tl (parseState s)\<rparr>) c
          else stateBeginString_step s c
      | stateBeginString \<Rightarrow> stateBeginString_step s c
      | stateEndValue \<Rightarrow> stateEndValue_step s c
      | stateEndTop \<Rightarrow> stateEndTop_step s c
      | stateInString \<Rightarrow>
          if c = CHR 0x22 then goto s stateEndValue scanContinue
          else if c = CHR 0x5C then goto s stateInStringEsc scanContinue
          else if (of_char c :: nat) < 32 then scanner_error s
          else (scanContinue, s)
      | stateInStringEsc \<Rightarrow>
          if c = CHR ''b'' \<or> c = CHR ''f'' \<or> c = CHR ''n'' \<or> c = CHR ''r'' \<or> c = CHR ''t''
             \<or> c = CHR 0x5C \<or> c = CHR ''/'' \<or> c = CHR 0x22
          then goto s stateInString scanContinue
          else if c = CHR ''u'' then goto s stateInStringEscU scanContinue
          else scanner_error s
      | stateInStringEscU \<Rightarrow> expectHex s c stateInStringEscU1
      | stateInStringEscU1 \<Rightarrow> expectHex s c stateInStringEscU12
      | stateInStringEscU12 \<Rightarrow> expectHex s c stateInStringEscU123
      | stateInStringEscU123 \<Rightarrow> expectHex s c stateInString
      | stateNeg \<Rightarrow>
          if c = CHR ''0'' then goto s state0 scanContinue
          else if isDigit c then goto s state1 scanContinue
          else scanner_error s
      | state1 \<Rightarrow> if isDigit c then goto s state1 scanContinue else state0_step s c
      | state0 \<Rightarrow> state0_step s c
      | stateDot \<Rightarrow> if isDigit c then goto s stateDot0 scanContinue else scanner_error s
      | stateDot0 \<Rightarrow>
          if isDigit c then (scanContinue, s)
          else if c = CHR ''e'' \<or> c = CHR ''E'' then goto s stateE scanContinue
          else stateEndValue_step s c
      | stateE \<Rightarrow>
          if c = CHR ''+'' \<or> c = CHR ''-'' then goto s stateESign scanContinue
          else stateESign_step s c
      | stateESign \<Rightarrow> stateESign_step s c
      | stateE0 \<Rightarrow> if isDigit c then (scanContinue, s) else stateEndValue_step s c
      | stateT \<Rightarrow> expect s c (CHR ''r'') stateTr
      | stateTr \<Rightarrow> expect s c (CHR ''u'') stateTru
      | stateTru \<Rightarrow> expect s c (CHR ''e'') stateEndValue
      | stateF \<Rightarrow> expect s c (CHR ''a'') stateFa
      | stateFa \<Rightarrow> expect s c (CHR ''l'') stateFal
      | stateFal \<Rightarrow> expect s c (CHR ''s'') stateFals
      | stateFals \<Rightarrow> expect s c (CHR ''e'') stateEndValue
      | stateN \<Rightarrow> expect s c (CHR ''u'') stateNu
      | stateNu \<Rightarrow> expect s c (CHR ''l'') stateNul
      | stateNul \<Rightarrow> expect s c (CHR ''l'') stateEndValue
      | stateError \<Rightarrow> (scanError, s))"

text \<open>
  \<open>eof\<close> tells the scanner that the input has ended. \<open>json.Valid\<close> feeds every byte of
  the data and then \<open>eof\<close>: the data is one JSON value with white space around it.
\<close>

definition scanner_eof :: "scanner \<Rightarrow> scan_code" where
  "scanner_eof s =
     (if scanErr s then scanError
      else if endTop s then scanEnd
      else if endTop (snd (scan_byte s (CHR '' ''))) then scanEnd
      else scanError)"

fun checkValid :: "scanner \<Rightarrow> string \<Rightarrow> bool" where
  "checkValid s [] = (scanner_eof s \<noteq> scanError)"
| "checkValid s (c # cs) =
     (case scan_byte s c of (code, s') \<Rightarrow> if code = scanError then False else checkValid s' cs)"

definition json_Valid :: "string \<Rightarrow> bool" where
  "json_Valid data = checkValid scanner_reset data"

text \<open>
  \<open>Decoder.readValue\<close> on a body that is read to its end: it feeds bytes until the scanner
  reports the end of the top-level value and returns the number of bytes up to there. The
  closing bracket of a top-level object or array ends the value at once; a number or a
  literal ends before the byte that follows it. What comes after the value is not looked
  at. At the end of the input an invented space decides whether a value is complete.
  \<open>None\<close> is an error (a syntax error, or an unexpected or plain end of input).
\<close>

fun readValue :: "scanner \<Rightarrow> string \<Rightarrow> nat \<Rightarrow> nat option" where
  "readValue s [] scanp = (if fst (scan_byte s (CHR '' '')) = scanEnd then Some scanp else None)"
| "readValue s (c # cs) scanp =
     (case scan_byte s c of (code, s') \<Rightarrow>
        if code = scanEnd then Some scanp
        else if (code = scanEndObject \<or> code = scanEndArray)
                \<and> fst (stateEndValue_step s' (CHR '' '')) = scanEnd
        then Some (scanp + 1)
        else if code = scanError then None
        else readValue s' cs (scanp + 1))"

text \<open>
  \<open>Decoder.Decode\<close> into a \<open>json.RawMessage\<close>: the bytes of the first value of the body,
  without the white space before it. The error of an empty or blank body is \<open>io.EOF\<close>;
  the texts of the syntax errors and of the unexpected end of input are abbreviated to one.
\<close>

definition Decoder_Decode :: "string \<Rightarrow> string + string" where
  "Decoder_Decode data =
     (case readValue scanner_reset data 0 of
        None \<Rightarrow> Inl (if list_all isSpace data then ''EOF'' else ''invalid JSON input'')
      | Some n \<Rightarrow> Inr (dropWhile isSpace (take n data)))"

section \<open>A JSON instance of the collaborators\<close>

text \<open>
  The result of a call is any Go value: here either a value with its JSON text, or a value
  that \<open>json.Marshal\<close> rejects (a NaN, a channel, a function), with the text of the error.
\<close>

datatype go_value = JSONValue string | Unsupported string

text \<open>
  Decimal digits of an integer of fewer than 21 digits, which covers every 64-bit integer
  of Go.
\<close>

definition digit :: "int \<Rightarrow> char" where
  "digit d = ''0123456789'' ! nat d"

fun decimalDigits :: "nat \<Rightarrow> int \<Rightarrow> string" where
  "decimalDigits 0 n = []"
| "decimalDigits (Suc fuel) n =
     (if n < 10 then [digit n] else decimalDigits fuel (n div 10) @ [digit (n mod 10)])"

definition decimal_int :: "int \<Rightarrow> string" where
  "decimal_int i = (if i < 0 then CHR ''-'' # decimalDigits 20 (- i) else decimalDigits 20 i)"

text \<open>A quoted JSON string; the quote and the backslash are escaped.\<close>

fun escaped :: "string \<Rightarrow> string" where
  "escaped [] = []"
| "escaped (c # cs) =
     (if c = CHR 0x22 \<or> c = CHR 0x5C then CHR 0x5C # c # escaped cs else c # escaped cs)"

definition quoted :: "string \<Rightarrow> string" where
  "quoted s = CHR 0x22 # escaped s @ [CHR 0x22]"

definition encodeId :: "int option \<Rightarrow> string" where
  "encodeId ident = (case ident of None \<Rightarrow> ''null'' | Some n \<Rightarrow> decimal_int n)"

text \<open>
  An encoder for the envelopes, as \<open>Encoder.Encode\<close> writes them: one line of JSON ended
  by a newline, or an error and nothing written when the result cannot be marshalled.
\<close>

definition encodeMessage :: "(int, go_value) JSONRPCMessage \<Rightarrow> string + string" where
  \<open>encodeMessage msg =
     (case msg of
        JSONRPCResponse ident (JSONValue text) \<Rightarrow>
          Inr (''{"jsonrpc":"2.0","id":'' @ encodeId ident @ '',"result":'' @ text @ ''}''
               @ [CHR 0x0A])
      | JSONRPCResponse ident (Unsupported err) \<Rightarrow> Inl err
      | JSONRPCError ident code message \<Rightarrow>
          Inr (''{"jsonrpc":"2.0","id":'' @ encodeId ident @ '',"error":{"code":''
               @ decimal_int code @ '',"message":'' @ quoted message @ ''}}'' @ [CHR 0x0A]))\<close>

text \<open>
  The instance: the decoder of the standard library, the encoder above, and a wrapped
  server that treats a message without an \<open>id\<close> member as a notification, answers the
  call of the tool \<open>nan\<close> with a result that cannot be marshalled, and answers every other
  call with an empty object.
\<close>

definition json_env :: "(unit, unit, int, go_value) Collaborators" where
  \<open>json_env =
     \<lparr>json_Decode = Decoder_Decode,
      HandleMessage = (\<lambda>mcpServer ctx raw.
         if \<not> Contains raw ''"id"'' then None
         else if Contains raw ''"name":"nan"''
         then Some (JSONRPCResponse (Some 1) (Unsupported ''json: unsupported value: NaN''))
         else Some (JSONRPCResponse (Some 1) (JSONValue ''{}''))),
      json_Encode = encodeMessage\<rparr>\<close>

definition ping_call :: string where
  \<open>ping_call = ''{"jsonrpc":"2.0","id":1,"method":"ping"}''\<close>

definition initialized_notification :: string where
  \<open>initialized_notification = ''{"jsonrpc":"2.0","method":"notifications/initialized"}''\<close>

definition truncated_call :: string where
  \<open>truncated_call = ''{"jsonrpc":"2.0","id":1,"method":''\<close>

definition call_then_garbage :: string where
  \<open>call_then_garbage = ''{"jsonrpc":"2.0","id":1,"method":"ping"} }garbage''\<close>

definition nan_call :: string where
  \<open>nan_call =
     ''{"jsonrpc":"2.0","id":1,"method":"tools/call","params":{"name":"nan"}}''\<close>

definition acceptsBoth :: "(string \<times> string) list" where
  "acceptsBoth =
     [(''Accept'', ''application/json, text/event-stream''),
      (''Content-Type'', ''application/json'')]"


definition acceptsBothTextPlain :: "(string \<times> string) list" where
  "acceptsBothTextPlain =
     [(''Accept'', ''application/json, text/event-stream''), (''Content-Type'', ''text/plain'')]"

text \<open>The replies of the instance to an undecodable body and to the ping call.\<close>

definition parse_error_reply :: string where
  \<open>parse_error_reply =
     ''{"jsonrpc":"2.0","id":null,"error":{"code":-32700,"message":"Parse error"}}''
     @ [CHR 0x0A]\<close>

definition ping_reply :: string where
  \<open>ping_reply = ''{"jsonrpc":"2.0","id":1,"result":{}}'' @ [CHR 0x0A]\<close>

text \<open>
  What holds of the scanner in every state it reaches: once the top-level value has ended
  it is in the step \<open>stateEndTop\<close> or in the error step, and it is in the error step only
  with an error recorded.
\<close>

definition scanner_inv :: "scanner \<Rightarrow> bool" where
  "scanner_inv s =
     ((\<not> endTop s \<or> scanStep s = stateEndTop \<or> scanStep s = stateError)
      \<and> (scanStep s \<noteq> stateError \<or> scanErr s))"

section \<open>Header names\<close>

lemma canon_content_type_lower:
  "CanonicalMIMEHeaderKey ''content-type'' = ''Content-Type''"
  by code_simp

lemma canon_Content_Type: "CanonicalMIMEHeaderKey ''Content-Type'' = ''Content-Type''"
  by code_simp

lemma canon_Accept: "CanonicalMIMEHeaderKey ''Accept'' = ''Accept''"
  by code_simp

section \<open>The handler, branch by branch\<close>

lemma status_http_Error: "\<not> wroteHeader w \<Longrightarrow> status (http_Error w msg code) = code"
  by (simp add: http_Error_def WriteHeader_def Write_def Let_def)

lemma body_http_Error: "body (http_Error w msg code) = body w @ msg @ [CHR 0x0A]"
  by (simp add: http_Error_def WriteHeader_def Write_def Let_def)

lemma status_http_Error_sent: "wroteHeader w \<Longrightarrow> status (http_Error w msg code) = status w"
  by (simp add: http_Error_def WriteHeader_def Write_def Let_def)

lemma sentHeader_http_Error_sent:
  "wroteHeader w \<Longrightarrow> sentHeader (http_Error w msg code) = sentHeader w"
  by (simp add: http_Error_def WriteHeader_def Write_def Let_def)

lemma fresh_writer [simp]:
  "\<not> wroteHeader NewResponseWriter" "body NewResponseWriter = []"
  "header NewResponseWriter = Map.empty"
  by (simp_all add: NewResponseWriter_def)

lemma methods_differ: "MethodGet \<noteq> MethodPost"
  by (simp add: MethodGet_def MethodPost_def)

lemma processMessage_not_acceptable:
  assumes "\<not> Contains (Header_Get (Header r) ''Accept'') ''application/json''"
      and "\<not> Contains (Header_Get (Header r) ''Accept'') ''text/event-stream''"
  shows "status (fst (processMessage env s NewResponseWriter r)) = StatusNotAcceptable"
  using assms by (simp add: processMessage_def status_http_Error)

lemma processMessage_unsupported:
  assumes "Contains (Header_Get (Header r) ''Accept'') ''application/json''
           \<or> Contains (Header_Get (Header r) ''Accept'') ''text/event-stream''"
      and "Header_Get (Header r) ''Content-Type'' \<noteq> ''application/json''"
  shows "status (fst (processMessage env s NewResponseWriter r)) = StatusUnsupportedMediaType"
  using assms by (auto simp add: processMessage_def status_http_Error)


lemma processMessage_post:
  assumes "Contains (Header_Get (Header r) ''Accept'') ''application/json''
           \<or> Contains (Header_Get (Header r) ''Accept'') ''text/event-stream''"
      and "Header_Get (Header r) ''Content-Type'' = ''application/json''"
      and "Method r = MethodPost"
  shows "processMessage env s w r =
     (case json_Decode env (Body r) of
             Inl err \<Rightarrow> (writeJSONRPCError env w None PARSE_ERROR ''Parse error'', [])
           | Inr rawMessage \<Rightarrow>
               (case HandleMessage env (server s) (Context r) rawMessage of
                  Some response \<Rightarrow>
                    (let w1 = w\<lparr>header :=
                                  Header_Set (header w) ''content-type'' ''application/json''\<rparr>;
                         w2 = WriteHeader w1 StatusOK
                     in case json_Encode env response of
                          Inl err \<Rightarrow>
                            (http_Error w2 ''Internal Server Error'' StatusInternalServerError,
                             Logger_Printf (errLogger s) (''Error writing response: '' @ err))
                        | Inr bs \<Rightarrow> (Write w2 bs, []))
                | None \<Rightarrow> (WriteHeader w StatusAccepted, [])))"
  using assms methods_differ by (auto simp add: processMessage_def)

lemma writeJSONRPCError_fresh:
  "status (writeJSONRPCError env NewResponseWriter ident code msg) = StatusBadRequest"
  "sentHeader (writeJSONRPCError env NewResponseWriter ident code msg) ''Content-Type''
     = Some [''application/json'']"
  "json_Encode env (createErrorResponse ident code msg) = Inr bs \<Longrightarrow>
     body (writeJSONRPCError env NewResponseWriter ident code msg) = bs"
  by (simp_all add: writeJSONRPCError_def Let_def WriteHeader_def Write_def Header_Set_def
      canon_Content_Type split: sum.splits)

lemma processMessage_encode_failure:
  assumes "Contains (Header_Get (Header r) ''Accept'') ''application/json''
           \<or> Contains (Header_Get (Header r) ''Accept'') ''text/event-stream''"
      and "Header_Get (Header r) ''Content-Type'' = ''application/json''"
      and "Method r = MethodPost"
      and "json_Decode env (Body r) = Inr raw"
      and "HandleMessage env (server s) (Context r) raw = Some resp"
      and "json_Encode env resp = Inl err"
  shows "status (fst (processMessage env s NewResponseWriter r)) = StatusOK"
    and "body (fst (processMessage env s NewResponseWriter r))
           = ''Internal Server Error'' @ [CHR 0x0A]"
    and "snd (processMessage env s NewResponseWriter r)
           = Logger_Printf (errLogger s) (''Error writing response: '' @ err)"
  using assms
  by (simp_all add: processMessage_post Let_def WriteHeader_def status_http_Error_sent
      body_http_Error)

section \<open>Construction of the server\<close>

lemma applyOptions_append:
  "applyOptions (opts @ opts') svr = applyOptions opts' (applyOptions opts svr)"
  by (induction opts arbitrary: svr) simp_all

lemma applyOptions_server:
  "set opts \<subseteq> range WithStatelessHTTPContextFunc \<union> range WithHTTPBasePath \<Longrightarrow>
     server (applyOptions opts svr) = server svr"
  by (induction opts arbitrary: svr)
     (auto simp add: WithStatelessHTTPContextFunc_def WithHTTPBasePath_def)

lemma applyOptions_basePath:
  "set opts \<subseteq> range WithStatelessHTTPContextFunc \<Longrightarrow>
     basePath (applyOptions opts svr) = basePath svr"
  by (induction opts arbitrary: svr) (auto simp add: WithStatelessHTTPContextFunc_def)

text \<open>
  The test \<open>TestStatelessHTTP\<close>: a server built with \<open>WithHTTPBasePath("/")\<close> has the
  base path \<open>/\<close> and keeps the wrapped server.
\<close>

lemma TestStatelessHTTP_can_instantiate:
  "basePath (NewStatelessHTTPServer mcpServer [WithHTTPBasePath ''/'']) = ''/''"
  "server (NewStatelessHTTPServer mcpServer [WithHTTPBasePath ''/'']) = mcpServer"
  by (simp_all add: NewStatelessHTTPServer_def WithHTTPBasePath_def)

text \<open>
  C10: built from options that are all \<open>WithStatelessHTTPContextFunc\<close>, the server has the
  base path \<open>/\<close>; built from the two option constructors of the package, it stores the
  wrapped server it was given; and the options run in order: the last option of the list
  is applied to the server that the options before it produced.
\<close>

theorem new_server_defaults_and_option_order:
  "(set opts \<subseteq> range WithStatelessHTTPContextFunc \<longrightarrow>
      basePath (NewStatelessHTTPServer mcpServer opts) = ''/'')
   \<and> (set opts \<subseteq> range WithStatelessHTTPContextFunc \<union> range WithHTTPBasePath \<longrightarrow>
      server (NewStatelessHTTPServer mcpServer opts) = mcpServer)
   \<and> NewStatelessHTTPServer mcpServer (opts @ [opt]) = opt (NewStatelessHTTPServer mcpServer opts)"
  by (simp add: NewStatelessHTTPServer_def applyOptions_append applyOptions_server
      applyOptions_basePath)

text \<open>C10 at a context option followed by a base-path option.\<close>

theorem new_server_defaults_and_option_order_witness:
  "basePath (NewStatelessHTTPServer (7::nat) [WithStatelessHTTPContextFunc (\<lambda>c::bool. \<not> c)]) = ''/''
   \<and> server (NewStatelessHTTPServer (7::nat) [WithStatelessHTTPContextFunc (\<lambda>c::bool. \<not> c)]) = 7
   \<and> NewStatelessHTTPServer (7::nat)
        ([WithStatelessHTTPContextFunc (\<lambda>c::bool. \<not> c)] @ [WithHTTPBasePath ''/mcp''])
      = WithHTTPBasePath ''/mcp''
          (NewStatelessHTTPServer 7 [WithStatelessHTTPContextFunc (\<lambda>c::bool. \<not> c)])"
  using new_server_defaults_and_option_order
          [of "[WithStatelessHTTPContextFunc (\<lambda>c::bool. \<not> c)]" "7::nat" "WithHTTPBasePath ''/mcp''"]
  by simp

text \<open>
  C6: with no option, the error logger of the new server is \<open>log.New(os.Stderr, "", log.LstdFlags)\<close>:
  its writer is the standard error stream, not the discarding writer, and a \<open>Printf\<close> on it
  emits an entry there.
\<close>

theorem default_errLogger_writes_stderr:
  "errLogger (NewStatelessHTTPServer mcpServer []) = log_New Stderr [] LstdFlags
   \<and> out (errLogger (NewStatelessHTTPServer mcpServer [])) \<noteq> Discard
   \<and> Logger_Printf (errLogger (NewStatelessHTTPServer mcpServer [])) msg
       = [(Stderr, [], LstdFlags, msg)]"
  by (simp add: NewStatelessHTTPServer_def log_New_def Logger_Printf_def)

section \<open>Header validation\<close>

text \<open>
  C1: a POST whose Accept header names only \<open>application/json\<close> (so it does not advertise
  \<open>text/event-stream\<close>) is served with status 200, not rejected with 406.
\<close>

theorem accept_json_alone_is_served:
  "\<not> Contains (Header_Get (Header (mkRequest ''POST''
        [(''Accept'', ''application/json''), (''Content-Type'', ''application/json'')]
        ''{id}'')) ''Accept'') ''text/event-stream''
   \<and> status (fst (ServeHTTP demo_env demo_server NewResponseWriter
        (mkRequest ''POST''
          [(''Accept'', ''application/json''), (''Content-Type'', ''application/json'')]
          ''{id}''))) = StatusOK
   \<and> StatusOK \<noteq> StatusNotAcceptable"
  by code_simp




text \<open>
  C3 as stated fails: a POST with Content-Type \<open>text/plain\<close> and no Accept header is
  answered 406, since the Accept check runs first.
\<close>

theorem post_text_plain_without_accept_is_406:
  "Method (mkRequest ''POST'' [(''Content-Type'', ''text/plain'')] ''{}'') = MethodPost
   \<and> Path (mkRequest ''POST'' [(''Content-Type'', ''text/plain'')] ''{}'') = basePath demo_server
   \<and> Header_Get (Header (mkRequest ''POST'' [(''Content-Type'', ''text/plain'')] ''{}''))
        ''Content-Type'' = ''text/plain''
   \<and> status (fst (ServeHTTP demo_env demo_server NewResponseWriter
        (mkRequest ''POST'' [(''Content-Type'', ''text/plain'')] ''{}''))) = StatusNotAcceptable
   \<and> StatusNotAcceptable \<noteq> StatusUnsupportedMediaType"
  by code_simp

text \<open>
  C3, amended: a POST to the message path with Content-Type \<open>text/plain\<close> whose Accept
  header advertises both \<open>application/json\<close> and \<open>text/event-stream\<close> is answered 415,
  whatever its body.
\<close>

theorem post_text_plain_accepting_both_is_415:
  assumes "Path r = basePath s" and "Method r = MethodPost"
      and "Header_Get (Header r) ''Content-Type'' = ''text/plain''"
      and "Contains (Header_Get (Header r) ''Accept'') ''application/json''"
      and "Contains (Header_Get (Header r) ''Accept'') ''text/event-stream''"
  shows "status (fst (ServeHTTP env s NewResponseWriter r)) = StatusUnsupportedMediaType"
  using assms by (simp add: ServeHTTP_def processMessage_unsupported)

text \<open>C3, amended, at a POST that accepts both media types.\<close>

theorem post_text_plain_accepting_both_is_415_witness:
  "status (fst (ServeHTTP json_env demo_server NewResponseWriter
      (mkRequest ''POST'' acceptsBothTextPlain ping_call))) = StatusUnsupportedMediaType"
proof -
  let ?r = "mkRequest ''POST'' acceptsBothTextPlain ping_call"
  have p: "Path ?r = basePath demo_server" by code_simp
  have m: "Method ?r = MethodPost" by code_simp
  have c: "Header_Get (Header ?r) ''Content-Type'' = ''text/plain''" by code_simp
  have a: "Contains (Header_Get (Header ?r) ''Accept'') ''application/json''" by code_simp
  have b: "Contains (Header_Get (Header ?r) ''Accept'') ''text/event-stream''" by code_simp
  show ?thesis by (rule post_text_plain_accepting_both_is_415 [OF p m c a b])
qed

section \<open>The decoder and well-formed JSON\<close>

lemmas scan_defs =
  scan_byte_def stateEndValue_step_def stateEndTop_step_def stateBeginValue_step_def
  stateBeginString_step_def state0_step_def stateESign_step_def expect_def expectHex_def
  goto_def scanner_error_def pushParseState_def popParseState_def Let_def

lemma scanner_inv_step: "scanner_inv s \<Longrightarrow> scanner_inv (snd (scan_byte s c))"
  by (cases "scanStep s")
     (auto simp add: scanner_inv_def scan_defs split: list.splits parse_state.splits if_splits)

lemma eof_space:
  "scanner_inv s \<Longrightarrow> scanner_eof s \<noteq> scanError \<Longrightarrow> fst (scan_byte s (CHR '' '')) = scanEnd"
  by (cases "scanStep s")
     (auto simp add: scanner_inv_def scanner_eof_def scan_defs isSpace_def
       split: list.splits parse_state.splits if_splits)

lemma checkValid_readValue:
  "scanner_inv s \<Longrightarrow> checkValid s data \<Longrightarrow> readValue s data n \<noteq> None"
proof (induction data arbitrary: s n)
  case Nil
  then show ?case by (simp add: eof_space)
next
  case (Cons c cs)
  obtain code s' where step: "scan_byte s c = (code, s')" by (cases "scan_byte s c")
  with Cons.prems(2) have ok: "code \<noteq> scanError" and rest: "checkValid s' cs"
    by (auto split: if_splits)
  from Cons.prems(1) step have "scanner_inv s'"
    using scanner_inv_step [of s c] by simp
  from Cons.IH [OF this rest] ok step show ?case by simp
qed

text \<open>
  A body that the decoder rejects is not well-formed JSON. The converse fails: the decoder
  stops at the end of the first value.
\<close>

lemma Decoder_Decode_error_not_Valid:
  "Decoder_Decode data = Inl err \<Longrightarrow> \<not> json_Valid data"
proof
  assume d: "Decoder_Decode data = Inl err" and v: "json_Valid data"
  have inv: "scanner_inv scanner_reset" by (simp add: scanner_inv_def scanner_reset_def)
  from v have "checkValid scanner_reset data" by (simp add: json_Valid_def)
  with inv have "readValue scanner_reset data 0 \<noteq> None"
    by (rule checkValid_readValue)
  with d show False by (auto simp add: Decoder_Decode_def)
qed

lemma Decoder_Decode_reads_first_value:
  "\<not> json_Valid call_then_garbage" "Decoder_Decode call_then_garbage = Inr ping_call"
  by code_simp+

section \<open>Replies to a POST\<close>

text \<open>
  C4 as stated fails: a POST that passes both header checks and whose body is a JSON-RPC
  call followed by garbage, which is not well-formed JSON, is answered 200: the decoder
  reads the call and leaves the rest of the body unread.
\<close>

theorem trailing_garbage_is_served:
  "Method (mkRequest ''POST'' acceptsBoth call_then_garbage) = MethodPost
   \<and> Path (mkRequest ''POST'' acceptsBoth call_then_garbage) = basePath demo_server
   \<and> Contains (Header_Get (Header (mkRequest ''POST'' acceptsBoth call_then_garbage)) ''Accept'')
        ''application/json''
   \<and> Contains (Header_Get (Header (mkRequest ''POST'' acceptsBoth call_then_garbage)) ''Accept'')
        ''text/event-stream''
   \<and> Header_Get (Header (mkRequest ''POST'' acceptsBoth call_then_garbage)) ''Content-Type''
        = ''application/json''
   \<and> \<not> json_Valid (Body (mkRequest ''POST'' acceptsBoth call_then_garbage))
   \<and> status (fst (ServeHTTP json_env demo_server NewResponseWriter
        (mkRequest ''POST'' acceptsBoth call_then_garbage))) = StatusOK
   \<and> StatusOK \<noteq> StatusBadRequest"
  by code_simp

text \<open>
  C4, amended: a POST to the message path whose Accept header advertises both media types,
  whose Content-Type is \<open>application/json\<close> and on whose body the decoder returns an
  error (the body does not begin with a complete JSON value) is answered with status 400,
  Content-Type \<open>application/json\<close>, and as body the encoding of the error envelope with a
  null id, the code \<open>PARSE_ERROR\<close> and the message \<open>Parse error\<close>.
\<close>

theorem post_undecodable_body_is_parse_error:
  assumes "Path r = basePath s" and "Method r = MethodPost"
      and "Contains (Header_Get (Header r) ''Accept'') ''application/json''"
      and "Contains (Header_Get (Header r) ''Accept'') ''text/event-stream''"
      and "Header_Get (Header r) ''Content-Type'' = ''application/json''"
      and "json_Decode env (Body r) = Inl err"
  shows "status (fst (ServeHTTP env s NewResponseWriter r)) = StatusBadRequest
       \<and> sentHeader (fst (ServeHTTP env s NewResponseWriter r)) ''Content-Type''
           = Some [''application/json'']
       \<and> (\<forall>bs. json_Encode env (createErrorResponse None PARSE_ERROR ''Parse error'') = Inr bs
             \<longrightarrow> body (fst (ServeHTTP env s NewResponseWriter r)) = bs)"
  using assms by (simp add: ServeHTTP_def processMessage_post writeJSONRPCError_fresh)

text \<open>C4, amended, at a call that breaks off in the middle.\<close>

theorem post_undecodable_body_is_parse_error_witness:
  "\<not> json_Valid (Body (mkRequest ''POST'' acceptsBoth truncated_call))
   \<and> status (fst (ServeHTTP json_env demo_server NewResponseWriter
        (mkRequest ''POST'' acceptsBoth truncated_call))) = StatusBadRequest
   \<and> sentHeader (fst (ServeHTTP json_env demo_server NewResponseWriter
        (mkRequest ''POST'' acceptsBoth truncated_call))) ''Content-Type''
       = Some [''application/json'']
   \<and> body (fst (ServeHTTP json_env demo_server NewResponseWriter
        (mkRequest ''POST'' acceptsBoth truncated_call))) = parse_error_reply
   \<and> json_Valid parse_error_reply"
proof -
  let ?r = "mkRequest ''POST'' acceptsBoth truncated_call"
  have p: "Path ?r = basePath demo_server" by code_simp
  have m: "Method ?r = MethodPost" by code_simp
  have a: "Contains (Header_Get (Header ?r) ''Accept'') ''application/json''" by code_simp
  have b: "Contains (Header_Get (Header ?r) ''Accept'') ''text/event-stream''" by code_simp
  have c: "Header_Get (Header ?r) ''Content-Type'' = ''application/json''" by code_simp
  have d: "json_Decode json_env (Body ?r) = Inl ''invalid JSON input''" by code_simp
  have e: "json_Encode json_env
             (createErrorResponse None PARSE_ERROR ''Parse error'' :: (int, go_value) JSONRPCMessage)
           = Inr parse_error_reply" by code_simp
  have v: "\<not> json_Valid (Body ?r)" "json_Valid parse_error_reply" by code_simp+
  from post_undecodable_body_is_parse_error [OF p m a b c d] e v show ?thesis by blast
qed

text \<open>
  C5 as stated fails: a well-formed call whose response cannot be marshalled is answered
  with the text of \<open>http.Error\<close> as body, which is not JSON.
\<close>

theorem unencodable_response_is_not_json:
  "Method (mkRequest ''POST'' acceptsBoth nan_call) = MethodPost
   \<and> Path (mkRequest ''POST'' acceptsBoth nan_call) = basePath demo_server
   \<and> Contains (Header_Get (Header (mkRequest ''POST'' acceptsBoth nan_call)) ''Accept'')
        ''application/json''
   \<and> Contains (Header_Get (Header (mkRequest ''POST'' acceptsBoth nan_call)) ''Accept'')
        ''text/event-stream''
   \<and> Header_Get (Header (mkRequest ''POST'' acceptsBoth nan_call)) ''Content-Type''
        = ''application/json''
   \<and> json_Valid (Body (mkRequest ''POST'' acceptsBoth nan_call))
   \<and> json_Decode json_env (Body (mkRequest ''POST'' acceptsBoth nan_call)) = Inr nan_call
   \<and> HandleMessage json_env (server demo_server)
        (Context (mkRequest ''POST'' acceptsBoth nan_call)) nan_call
        = Some (JSONRPCResponse (Some 1) (Unsupported ''json: unsupported value: NaN''))
   \<and> json_Encode json_env (JSONRPCResponse (Some 1) (Unsupported ''json: unsupported value: NaN''))
        = Inl ''json: unsupported value: NaN''
   \<and> body (fst (ServeHTTP json_env demo_server NewResponseWriter
        (mkRequest ''POST'' acceptsBoth nan_call))) = ''Internal Server Error'' @ [CHR 0x0A]
   \<and> \<not> json_Valid (body (fst (ServeHTTP json_env demo_server NewResponseWriter
        (mkRequest ''POST'' acceptsBoth nan_call))))"
  by code_simp

text \<open>
  C5, amended: a POST to the message path whose Accept header advertises both media types,
  whose Content-Type is \<open>application/json\<close> and whose body decodes: when the wrapped
  server returns a response that the encoder can encode, the reply has status 200,
  Content-Type \<open>application/json\<close> and the encoded response as its body; when it returns
  \<open>nil\<close>, the reply has status 202 and an empty body.
\<close>

theorem post_reply_when_encodable:
  assumes "Path r = basePath s" and "Method r = MethodPost"
      and "Contains (Header_Get (Header r) ''Accept'') ''application/json''"
      and "Contains (Header_Get (Header r) ''Accept'') ''text/event-stream''"
      and "Header_Get (Header r) ''Content-Type'' = ''application/json''"
      and "json_Decode env (Body r) = Inr raw"
  shows "(\<forall>resp bs. HandleMessage env (server s) (Context r) raw = Some resp
                    \<and> json_Encode env resp = Inr bs \<longrightarrow>
            status (fst (ServeHTTP env s NewResponseWriter r)) = StatusOK
          \<and> sentHeader (fst (ServeHTTP env s NewResponseWriter r)) ''Content-Type''
              = Some [''application/json'']
          \<and> body (fst (ServeHTTP env s NewResponseWriter r)) = bs)
       \<and> (HandleMessage env (server s) (Context r) raw = None \<longrightarrow>
            status (fst (ServeHTTP env s NewResponseWriter r)) = StatusAccepted
          \<and> body (fst (ServeHTTP env s NewResponseWriter r)) = [])"
  using assms
  by (auto simp add: ServeHTTP_def processMessage_post Let_def WriteHeader_def Write_def
      Header_Set_def canon_content_type_lower)

text \<open>C5, amended, at the ping call and at a notification.\<close>

theorem post_reply_when_encodable_witness:
  "json_Valid (Body (mkRequest ''POST'' acceptsBoth ping_call))
   \<and> status (fst (ServeHTTP json_env demo_server NewResponseWriter
        (mkRequest ''POST'' acceptsBoth ping_call))) = StatusOK
   \<and> sentHeader (fst (ServeHTTP json_env demo_server NewResponseWriter
        (mkRequest ''POST'' acceptsBoth ping_call))) ''Content-Type''
       = Some [''application/json'']
   \<and> body (fst (ServeHTTP json_env demo_server NewResponseWriter
        (mkRequest ''POST'' acceptsBoth ping_call))) = ping_reply
   \<and> json_Valid ping_reply
   \<and> json_Valid (Body (mkRequest ''POST'' acceptsBoth initialized_notification))
   \<and> status (fst (ServeHTTP json_env demo_server NewResponseWriter
        (mkRequest ''POST'' acceptsBoth initialized_notification))) = StatusAccepted
   \<and> body (fst (ServeHTTP json_env demo_server NewResponseWriter
        (mkRequest ''POST'' acceptsBoth initialized_notification))) = []"
proof -
  let ?call = "mkRequest ''POST'' acceptsBoth ping_call"
  let ?note = "mkRequest ''POST'' acceptsBoth initialized_notification"
  have p: "Path ?call = basePath demo_server" "Path ?note = basePath demo_server"
    by code_simp+
  have m: "Method ?call = MethodPost" "Method ?note = MethodPost" by code_simp+
  have a: "Contains (Header_Get (Header ?call) ''Accept'') ''application/json''"
          "Contains (Header_Get (Header ?note) ''Accept'') ''application/json''"
    by code_simp+
  have b: "Contains (Header_Get (Header ?call) ''Accept'') ''text/event-stream''"
          "Contains (Header_Get (Header ?note) ''Accept'') ''text/event-stream''"
    by code_simp+
  have c: "Header_Get (Header ?call) ''Content-Type'' = ''application/json''"
          "Header_Get (Header ?note) ''Content-Type'' = ''application/json''" by code_simp+
  have d: "json_Decode json_env (Body ?call) = Inr ping_call"
          "json_Decode json_env (Body ?note) = Inr initialized_notification" by code_simp+
  have h: "HandleMessage json_env (server demo_server) (Context ?call) ping_call
             = Some (JSONRPCResponse (Some 1) (JSONValue ''{}''))"
          "HandleMessage json_env (server demo_server) (Context ?note) initialized_notification
             = None" by code_simp+
  have e: "json_Encode json_env (JSONRPCResponse (Some 1) (JSONValue ''{}'')) = Inr ping_reply"
    by code_simp
  have v: "json_Valid (Body ?call)" "json_Valid ping_reply" "json_Valid (Body ?note)"
    by code_simp+
  from post_reply_when_encodable [OF p(1) m(1) a(1) b(1) c(1) d(1)] h(1) e
       post_reply_when_encodable [OF p(2) m(2) a(2) b(2) c(2) d(2)] h(2) v
  show ?thesis by blast
qed

section \<open>Backoff of the reconnect loop\<close>

declare reconnectAttempts.simps [simp del]

lemma backoff_sint:
  "attempt \<le> 5 \<Longrightarrow> sint (of_nat attempt * Second :: Duration) = int attempt * 1000000000"
proof -
  assume "attempt \<le> 5"
  then have "attempt \<in> {0, 1, 2, 3, 4, 5}" by auto
  then show ?thesis by (auto simp add: Second_def)
qed

lemma reconnectAttempts_delays:
  "map sint (fst (reconnectAttempts connectOk cancelled a))
     = map (\<lambda>n. int n * 1000000000)
         [a ..< a + length (fst (reconnectAttempts connectOk cancelled a))]
   \<and> (a \<le> 6 \<longrightarrow> a + length (fst (reconnectAttempts connectOk cancelled a)) \<le> 6)"
proof (induction connectOk cancelled a rule: reconnectAttempts.induct)
  case (1 connectOk cancelled attempt)
  show ?case
  proof (cases "attempt \<le> 5 \<and> \<not> connectOk attempt \<and> \<not> cancelled attempt")
    case True
    define rest where "rest = fst (reconnectAttempts connectOk cancelled (attempt + 1))"
    from True 1 have IH: "map sint rest
        = map (\<lambda>n. int n * 1000000000) [attempt + 1 ..< attempt + 1 + length rest]"
      and bound: "attempt + 1 + length rest \<le> 6"
      unfolding rest_def by auto
    from True have eq: "fst (reconnectAttempts connectOk cancelled attempt)
        = of_nat attempt * Second # rest"
      unfolding rest_def by (subst reconnectAttempts.simps) simp
    have range: "[attempt ..< attempt + length (of_nat attempt * Second # rest)]
        = attempt # [attempt + 1 ..< attempt + 1 + length rest]"
      by (simp del: upt_Suc add: upt_conv_Cons)
    from True have head: "sint (of_nat attempt * Second :: Duration) = int attempt * 1000000000"
      by (simp add: backoff_sint)
    show ?thesis
      unfolding eq range using IH bound head by (simp del: upt_Suc)
  next
    case False
    then have "fst (reconnectAttempts connectOk cancelled attempt) = []
        \<or> (attempt \<le> 5 \<and> fst (reconnectAttempts connectOk cancelled attempt)
              = [of_nat attempt * Second])"
      by (subst (1 2) reconnectAttempts.simps) auto
    then show ?thesis
      by (auto simp add: backoff_sint)
  qed
qed

lemma strictly_increasing_multiples:
  "sorted_wrt (<) (map (\<lambda>n. int n * 1000000000) [a ..< b])"
proof -
  have "sorted_wrt (\<lambda>m n. int m * 1000000000 < int n * 1000000000) [a ..< b]"
    by (rule sorted_wrt_mono_rel [of _ "(<)"]) (simp_all add: sorted_wrt_upt)
  then show ?thesis by (simp add: sorted_wrt_map)
qed

lemma reconnectAttempts_failures:
  "a + n \<le> 6 \<Longrightarrow> (\<forall>k. a \<le> k \<and> k < a + n \<longrightarrow> \<not> connectOk k) \<Longrightarrow>
   (\<forall>k. a \<le> k \<and> k + 1 < a + n \<longrightarrow> \<not> cancelled k) \<Longrightarrow>
   take n (fst (reconnectAttempts connectOk cancelled a))
     = map (\<lambda>k. of_nat k * Second) [a ..< a + n]"
proof (induction n arbitrary: a)
  case 0
  then show ?case by simp
next
  case (Suc n)
  from Suc.prems have le: "a \<le> 5" and fail: "\<not> connectOk a" by auto
  have range: "[a ..< a + Suc n] = a # [a + 1 ..< a + 1 + n]"
    by (simp del: upt_Suc add: upt_conv_Cons)
  show ?case
  proof (cases "cancelled a")
    case True
    with Suc.prems have "n = 0" by (cases n) auto
    moreover from True le fail
    have "fst (reconnectAttempts connectOk cancelled a) = [of_nat a * Second]"
      by (subst reconnectAttempts.simps) simp
    ultimately show ?thesis by simp
  next
    case False
    with le fail
    have eq: "fst (reconnectAttempts connectOk cancelled a)
        = of_nat a * Second # fst (reconnectAttempts connectOk cancelled (a + 1))"
      by (subst reconnectAttempts.simps) simp
    from Suc.prems
    have "take n (fst (reconnectAttempts connectOk cancelled (a + 1)))
        = map (\<lambda>k. of_nat k * Second) [a + 1 ..< a + 1 + n]"
      by (intro Suc.IH) auto
    then show ?thesis
      unfolding eq range by simp
  qed
qed

text \<open>
  C7 as stated fails for the sixth consecutive failure: after five failed attempts the
  round ends, the next trigger starts again at attempt 1, and the timer armed after the
  sixth failed \<open>connect\<close> is one second, not six, and not longer than the one before it.
\<close>

theorem sixth_failure_waits_one_second:
  "\<not> connectAlwaysFails 1 \<and> \<not> connectAlwaysFails 2 \<and> \<not> connectAlwaysFails 3
   \<and> \<not> connectAlwaysFails 4 \<and> \<not> connectAlwaysFails 5 \<and> \<not> connectAlwaysFails 6
   \<and> reconnectLoop connectAlwaysFails neverCancelled 0 2
       = [1 * Second, 2 * Second, 3 * Second, 4 * Second, 5 * Second,
          1 * Second, 2 * Second, 3 * Second, 4 * Second, 5 * Second]
   \<and> reconnectLoop connectAlwaysFails neverCancelled 0 2 ! 5 = 1 * Second
   \<and> sint (1 * Second) \<noteq> 6 * sint Second
   \<and> \<not> sint (reconnectLoop connectAlwaysFails neverCancelled 0 2 ! 4)
         < sint (reconnectLoop connectAlwaysFails neverCancelled 0 2 ! 5)"
  by code_simp

text \<open>
  C7, amended: within one round of the reconnect loop, when the first n attempts fail
  (n at most 5) and no wait before the n-th is cut short by the cancellation of the
  context, the timers armed after these failures are 1, 2, ..., n times \<open>time.Second\<close>,
  in this order: the k-th failed attempt is followed by a delay of k seconds, and the
  delays are strictly increasing.
\<close>

theorem reconnect_backoff_within_round:
  assumes "n \<le> 5"
      and "\<forall>k. 1 \<le> k \<and> k \<le> n \<longrightarrow> \<not> connectOk k"
      and "\<forall>k. 1 \<le> k \<and> k < n \<longrightarrow> \<not> cancelled k"
  shows "take n (fst (reconnectAttempts connectOk cancelled 1))
           = map (\<lambda>k. of_nat k * Second) [1 ..< Suc n]
       \<and> map sint (take n (fst (reconnectAttempts connectOk cancelled 1)))
           = map (\<lambda>k. int k * sint Second) [1 ..< Suc n]
       \<and> sorted_wrt (\<lambda>a b. sint a < sint b)
           (take n (fst (reconnectAttempts connectOk cancelled 1)))"
proof -
  let ?ds = "take n (fst (reconnectAttempts connectOk cancelled 1))"
  from assms have eq: "?ds = map (\<lambda>k. of_nat k * Second) [1 ..< 1 + n]"
    by (intro reconnectAttempts_failures) auto
  have s: "sint Second = 1000000000" by (simp add: Second_def)
  have "map sint (map (\<lambda>k. of_nat k * Second :: Duration) [1 ..< 1 + n])
      = map (\<lambda>k. int k * 1000000000) [1 ..< 1 + n]"
    using assms(1) by (auto simp add: backoff_sint)
  with eq have m: "map sint ?ds = map (\<lambda>k. int k * 1000000000) [1 ..< 1 + n]" by simp
  have "sorted_wrt (<) (map sint ?ds)"
    unfolding m by (rule strictly_increasing_multiples)
  then have "sorted_wrt (\<lambda>a b. sint a < sint b) ?ds"
    by (simp add: sorted_wrt_map)
  with eq m s show ?thesis by simp
qed

text \<open>C7, amended, at three failed attempts followed by a fourth that succeeds.\<close>

theorem reconnect_backoff_within_round_witness:
  "take 3 (fst (reconnectAttempts connectsAtFourth neverCancelled 1))
     = [1 * Second, 2 * Second, 3 * Second]
   \<and> map sint (take 3 (fst (reconnectAttempts connectsAtFourth neverCancelled 1)))
     = [1 * sint Second, 2 * sint Second, 3 * sint Second]
   \<and> sorted_wrt (\<lambda>a b. sint a < sint b)
       (take 3 (fst (reconnectAttempts connectsAtFourth neverCancelled 1)))
   \<and> reconnectAttempts connectsAtFourth neverCancelled 1
     = ([1 * Second, 2 * Second, 3 * Second], Reconnected)"
proof -
  have n: "(3::nat) \<le> 5" by simp
  have f: "\<forall>k. 1 \<le> k \<and> k \<le> 3 \<longrightarrow> \<not> connectsAtFourth k"
    by (simp add: connectsAtFourth_def)
  have c: "\<forall>k. 1 \<le> k \<and> k < 3 \<longrightarrow> \<not> neverCancelled k"
    by (simp add: neverCancelled_def)
  have r: "[1 ..< Suc 3] = [1, 2, 3]" by code_simp
  have e: "reconnectAttempts connectsAtFourth neverCancelled 1
     = ([1 * Second, 2 * Second, 3 * Second], Reconnected)" by code_simp
  from reconnect_backoff_within_round [OF n f c] e show ?thesis
    unfolding r by simp
qed

text \<open>Three failed attempts and a fourth that succeeds; five failed attempts.\<close>

lemma three_failures_then_success:
  "reconnectAttempts (\<lambda>attempt. 4 \<le> attempt) (\<lambda>attempt. False) 1
     = ([1 * Second, 2 * Second, 3 * Second], Reconnected)"
  by code_simp

lemma five_failures_give_up:
  "reconnectAttempts (\<lambda>attempt. False) (\<lambda>attempt. False) 1
     = ([1 * Second, 2 * Second, 3 * Second, 4 * Second, 5 * Second], GaveUp)"
  by code_simp

section \<open>The trigger channel\<close>

lemma trySend_cap [simp]: "cap (trySend ch v) = cap ch"
  by (simp add: trySend_def)

lemma trySend_bound: "length (buf ch) \<le> cap ch \<Longrightarrow> length (buf (trySend ch v)) \<le> cap ch"
  by (simp add: trySend_def)

lemma tryRecv_Some:
  "tryRecv ch = Some (v, ch') \<Longrightarrow> cap ch' = cap ch \<and> length (buf ch') < length (buf ch)"
  by (auto simp add: tryRecv_def split: list.splits)

lemma step_cap: "cap (reconnectCh (step e s)) = cap (reconnectCh s)"
  by (cases e)
     (auto simp add: loop_at_def split: option.splits loop_pc.splits prod.splits
       dest: tryRecv_Some)

lemma step_bound:
  "length (buf (reconnectCh s)) \<le> cap (reconnectCh s) \<Longrightarrow>
   length (buf (reconnectCh (step e s))) \<le> cap (reconnectCh s)"
  by (cases e)
     (auto simp add: loop_at_def trySend_bound split: option.splits loop_pc.splits prod.splits
       dest!: tryRecv_Some)

lemma step_loops_length: "length (loops (step e s)) = length (loops s)"
  by (cases e)
     (auto simp add: loop_at_def split: option.splits loop_pc.splits prod.splits)

lemma run_invariant:
  "length (buf (reconnectCh s)) \<le> cap (reconnectCh s) \<Longrightarrow>
   cap (reconnectCh (run es s)) = cap (reconnectCh s)
   \<and> length (buf (reconnectCh (run es s))) \<le> cap (reconnectCh s)
   \<and> length (loops (run es s)) = length (loops s)"
proof (induction es arbitrary: s)
  case Nil
  then show ?case by simp
next
  case (Cons e es)
  from Cons.prems have "length (buf (reconnectCh (step e s))) \<le> cap (reconnectCh (step e s))"
    by (simp add: step_bound step_cap)
  from Cons.IH [OF this] show ?case
    by (simp add: step_cap step_loops_length)
qed

lemma signal_dropped:
  "length (buf (reconnectCh s)) = cap (reconnectCh s) \<Longrightarrow> step CallTool_ConnectionError s = s"
  by (simp add: trySend_def)

text \<open>
  C8: from a state whose trigger channel has capacity 1 and holds at most one trigger and
  in which one reconnect loop runs, every sequence of events leads to a state with at most
  one pending trigger and at most one loop inside a recovery; and a failure signal raised
  while a trigger is pending changes nothing.
\<close>

theorem single_flight:
  assumes "cap (reconnectCh s) = 1" and "pending s \<le> 1" and "length (loops s) = 1"
  shows "pending (run es s) \<le> 1
       \<and> inRecovery (run es s) \<le> 1
       \<and> (pending (run es s) = 1 \<longrightarrow> step CallTool_ConnectionError (run es s) = run es s)"
proof -
  from assms have b: "length (buf (reconnectCh s)) \<le> cap (reconnectCh s)"
    by (simp add: pending_def)
  note inv = run_invariant [OF b, of es]
  from inv assms have p: "pending (run es s) \<le> 1" by (simp add: pending_def)
  have "inRecovery (run es s) \<le> length (loops (run es s))"
    unfolding inRecovery_def by (rule length_filter_le)
  with inv assms have r: "inRecovery (run es s) \<le> 1" by simp
  have d: "pending (run es s) = 1 \<longrightarrow> step CallTool_ConnectionError (run es s) = run es s"
  proof
    assume "pending (run es s) = 1"
    with inv assms have "length (buf (reconnectCh (run es s))) = cap (reconnectCh (run es s))"
      by (simp add: pending_def)
    then show "step CallTool_ConnectionError (run es s) = run es s"
      by (rule signal_dropped)
  qed
  from p r d show ?thesis by blast
qed

text \<open>
  C8 on a connected client: two failure signals, the loop takes the trigger, two more
  signals arrive while its first attempt fails.
\<close>

theorem single_flight_witness:
  "pending (run [CallTool_ConnectionError, CallTool_ConnectionError, Loop_Receive 0,
                 CallTool_ConnectionError, CallTool_ConnectionError, Loop_ConnectError 0]
              (NewResilientSSEClient\<lparr>client := Some SSEClient\<rparr>)) = 1
   \<and> inRecovery (run [CallTool_ConnectionError, CallTool_ConnectionError, Loop_Receive 0,
                 CallTool_ConnectionError, CallTool_ConnectionError, Loop_ConnectError 0]
              (NewResilientSSEClient\<lparr>client := Some SSEClient\<rparr>)) = 1
   \<and> step CallTool_ConnectionError
        (run [CallTool_ConnectionError, CallTool_ConnectionError, Loop_Receive 0,
              CallTool_ConnectionError, CallTool_ConnectionError, Loop_ConnectError 0]
           (NewResilientSSEClient\<lparr>client := Some SSEClient\<rparr>))
       = run [CallTool_ConnectionError, CallTool_ConnectionError, Loop_Receive 0,
              CallTool_ConnectionError, CallTool_ConnectionError, Loop_ConnectError 0]
           (NewResilientSSEClient\<lparr>client := Some SSEClient\<rparr>)"
proof -
  let ?s = "NewResilientSSEClient\<lparr>client := Some SSEClient\<rparr>"
  let ?es = "[CallTool_ConnectionError, CallTool_ConnectionError, Loop_Receive 0,
              CallTool_ConnectionError, CallTool_ConnectionError, Loop_ConnectError 0]"
  have c: "cap (reconnectCh ?s) = 1" by code_simp
  have p: "pending ?s \<le> 1" by code_simp
  have l: "length (loops ?s) = 1" by code_simp
  have p1: "pending (run ?es ?s) = 1" by code_simp
  have r1: "inRecovery (run ?es ?s) = 1" by code_simp
  from single_flight [OF c p l, of ?es] p1 r1 show ?thesis by blast
qed

lemma NewResilientSSEClient_single_flight_start:
  "cap (reconnectCh NewResilientSSEClient) = 1"
  "pending NewResilientSSEClient = 0"
  "length (loops NewResilientSSEClient) = 1"
  by (simp_all add: NewResilientSSEClient_def make_chan_def pending_def)

section \<open>Close and the background loop\<close>

text \<open>
  C9: \<open>Close\<close> of the resilient SSE client cancels the context and returns; in the run
  where it does so before the loop takes another step, \<open>Close\<close> has returned and the loop
  goroutine is still at its \<open>select\<close>, not yet exited.
\<close>

theorem sse_close_returns_before_loop_exits:
  "closing (run [Close_Cancel, Close_Return] NewResilientSSEClient) = Returned
   \<and> ctxDone (run [Close_Cancel, Close_Return] NewResilientSSEClient)
   \<and> loops (run [Close_Cancel, Close_Return] NewResilientSSEClient) = [AtSelect]"
  by code_simp

text \<open>
  The managed stdio client: the wait group counts the monitor goroutines that have not
  returned, so \<open>Close\<close> returns only after the monitor has exited.
\<close>

lemma running_update_live:
  "i < length ms \<Longrightarrow> ms ! i \<noteq> MonitorExited \<Longrightarrow> pc \<noteq> MonitorExited \<Longrightarrow>
   length (filter (\<lambda>pc. pc \<noteq> MonitorExited) (ms[i := pc]))
     = length (filter (\<lambda>pc. pc \<noteq> MonitorExited) ms)"
proof (induction ms arbitrary: i)
  case Nil
  then show ?case by simp
next
  case (Cons m ms)
  then show ?case by (cases i) auto
qed

lemma running_update_exit:
  "i < length ms \<Longrightarrow> ms ! i \<noteq> MonitorExited \<Longrightarrow>
   Suc (length (filter (\<lambda>pc. pc \<noteq> MonitorExited) (ms[i := MonitorExited])))
     = length (filter (\<lambda>pc. pc \<noteq> MonitorExited) ms)"
proof (induction ms arbitrary: i)
  case Nil
  then show ?case by simp
next
  case (Cons m ms)
  then show ?case by (cases i) auto
qed

lemma stdio_step_inv: "stdio_inv s \<Longrightarrow> stdio_inv (stdio_step e s)"
proof (cases e)
  case (Monitor_CtxDone i)
  assume inv: "stdio_inv s"
  show ?thesis
  proof (cases "stdioCtxDone s \<and> monitor_at s i = Some MonitorAtSelect")
    case True
    then have i: "i < length (monitors s)" and live: "monitors s ! i \<noteq> MonitorExited"
      by (auto simp add: monitor_at_def split: if_splits)
    from running_update_exit [OF i live] inv True Monitor_CtxDone show ?thesis
      by (auto simp add: stdio_inv_def monitorsRunning_def wg_Done_def)
  next
    case False
    with inv Monitor_CtxDone show ?thesis
      by (auto split: option.splits monitor_pc.splits)
  qed
qed (auto simp add: stdio_inv_def monitorsRunning_def monitor_at_def running_update_live
      split: option.splits monitor_pc.splits prod.splits if_splits)

lemma stdio_step_returned:
  "stdioClosing s = CloseReturned \<Longrightarrow> wg s = 0 \<Longrightarrow>
   stdioClosing (stdio_step e s) = CloseReturned \<and> wg (stdio_step e s) = 0"
  by (cases e)
     (auto simp add: monitor_at_def wg_Done_def split: option.splits monitor_pc.splits prod.splits)

lemma stdio_step_returns:
  "stdioClosing (stdio_step e s) = CloseReturned \<Longrightarrow> stdioClosing s \<noteq> CloseReturned \<Longrightarrow>
   wg (stdio_step e s) = 0"
  by (cases e)
     (auto simp add: monitor_at_def wg_Done_def split: option.splits monitor_pc.splits prod.splits
       if_splits)

lemma stdio_run_inv:
  "stdio_inv s \<Longrightarrow> (stdioClosing s = CloseReturned \<longrightarrow> wg s = 0) \<Longrightarrow>
   stdio_inv (stdio_run es s)
   \<and> (stdioClosing (stdio_run es s) = CloseReturned \<longrightarrow> wg (stdio_run es s) = 0)"
proof (induction es arbitrary: s)
  case Nil
  then show ?case by simp
next
  case (Cons e es)
  have "stdio_inv (stdio_step e s)" using Cons.prems(1) by (rule stdio_step_inv)
  moreover have "stdioClosing (stdio_step e s) = CloseReturned \<longrightarrow> wg (stdio_step e s) = 0"
    using Cons.prems(2) stdio_step_returned [of s e] stdio_step_returns [of e s] by blast
  ultimately show ?case using Cons.IH by simp
qed

lemma stdio_close_waits_for_monitor:
  assumes "NewManagedStdioClient True = Some s0"
      and "stdioClosing (stdio_run es s0) = CloseReturned"
  shows "\<forall>pc \<in> set (monitors (stdio_run es s0)). pc = MonitorExited"
proof -
  from assms(1) have "stdio_inv s0" and "stdioClosing s0 \<noteq> CloseReturned"
    by (auto simp add: NewManagedStdioClient_def stdio_inv_def monitorsRunning_def)
  with stdio_run_inv [of s0 es] assms(2)
  have "monitorsRunning (stdio_run es s0) = 0"
    by (simp add: stdio_inv_def)
  then show ?thesis
    by (simp add: monitorsRunning_def filter_empty_conv)
qed

lemma stdio_close_blocks_until_exit:
  "NewManagedStdioClient True = Some s0 \<Longrightarrow>
   stdioClosing (stdio_run [StdioClose_Cancel, StdioClose_WaitDone] s0) = CloseWaiting"
  "NewManagedStdioClient True = Some s0 \<Longrightarrow>
   stdioClosing
     (stdio_run [StdioClose_Cancel, StdioClose_WaitDone, Monitor_CtxDone 0, StdioClose_WaitDone] s0)
     = CloseReturned"
  by (auto simp add: NewManagedStdioClient_def make_chan_def monitor_at_def wg_Done_def)

end
